theory Spec2Isabelle
  imports
    Main
    "HOL-Library.Sublist"
    "HOL-Library.Char_ord"
    "HOL-Library.List_Lexorder"
    "HOL-Library.Product_Lexorder"
begin

section \<open>The documentation-contract enforcer (tools/enforce\_docstrings.py)\<close>

text \<open>
  A shallow embedding of \<^verbatim>\<open>tools/enforce_docstrings.py\<close>. The Python standard
  library is the boundary of the model: \<^verbatim>\<open>ast.parse\<close> and \<^verbatim>\<open>str.splitlines\<close> are
  represented by their results on a file (a syntax tree or a syntax error, and the list
  of source lines), \<^verbatim>\<open>pathlib\<close> paths by their lists of components, and the file
  system by a finite view of which paths are files and directories.

  A Python \<^verbatim>\<open>str\<close> is modelled by \<^typ>\<open>string\<close>, one \<^typ>\<open>char\<close> per code
  point, which covers the code points below 256 (Latin-1). All tokens and messages of
  the tool are ASCII.
\<close>

subsection \<open>String operations of the Python standard library\<close>

text \<open>\<^verbatim>\<open>str.lower\<close> on one code point below 256: the ASCII capitals and the Latin-1
  capitals (0xC0 to 0xDE except the multiplication sign 0xD7) move up by 32.\<close>

definition lower_char :: "char \<Rightarrow> char" where
  "lower_char c =
     (let n = (of_char c :: nat)
      in if (65 \<le> n \<and> n \<le> 90) \<or> (192 \<le> n \<and> n \<le> 222 \<and> n \<noteq> 215)
         then char_of (n + 32) else c)"

definition py_lower :: "string \<Rightarrow> string" where
  "py_lower s = map lower_char s"

text \<open>\<^verbatim>\<open>str.isspace\<close> on one code point below 256, which is what \<^verbatim>\<open>str.strip()\<close>
  removes: tab to carriage return, the four separators 0x1C to 0x1F, space, next line
  (0x85) and no-break space (0xA0).\<close>

definition py_isspace :: "char \<Rightarrow> bool" where
  "py_isspace c =
     (let n = (of_char c :: nat)
      in (9 \<le> n \<and> n \<le> 13) \<or> (28 \<le> n \<and> n \<le> 32) \<or> n = 133 \<or> n = 160)"

definition py_strip :: "string \<Rightarrow> string" where
  "py_strip s = rev (dropWhile py_isspace (rev (dropWhile py_isspace s)))"

text \<open>\<^verbatim>\<open>s.find(t)\<close>: the lowest index at which \<open>t\<close> occurs in \<open>s\<close>; Python's
  \<open>-1\<close> is \<open>None\<close>.\<close>

fun str_find :: "string \<Rightarrow> string \<Rightarrow> nat option" where
  "str_find [] t = (if t = [] then Some 0 else None)"
| "str_find (c # cs) t =
     (if prefix t (c # cs) then Some 0 else map_option Suc (str_find cs t))"

text \<open>\<^verbatim>\<open>s.startswith(t)\<close> is \<^term>\<open>prefix t s\<close> and \<^verbatim>\<open>s.endswith(t)\<close> is
  \<^term>\<open>suffix t s\<close>.\<close>

text \<open>\<^verbatim>\<open>s.split(d)\<close> with a one-character separator: always at least one piece.\<close>

fun split_on :: "char \<Rightarrow> string \<Rightarrow> string list" where
  "split_on d [] = [[]]"
| "split_on d (c # cs) =
     (if c = d then [] # split_on d cs
      else (case split_on d cs of
              [] \<Rightarrow> [[c]]
            | w # ws \<Rightarrow> (c # w) # ws))"

text \<open>\<^verbatim>\<open>d.join(xs)\<close> with a one-character separator.\<close>

fun join_with :: "char \<Rightarrow> string list \<Rightarrow> string" where
  "join_with d [] = []"
| "join_with d [x] = x"
| "join_with d (x # y # ys) = x @ d # join_with d (y # ys)"

text \<open>\<^verbatim>\<open>s.replace(old, new)\<close> for a non-empty \<open>old\<close>: every non-overlapping
  occurrence, leftmost first.\<close>

function str_replace :: "string \<Rightarrow> string \<Rightarrow> string \<Rightarrow> string" where
  "str_replace old new s =
     (if s = [] then []
      else if old \<noteq> [] \<and> prefix old s
           then new @ str_replace old new (drop (length old) s)
      else hd s # str_replace old new (tl s))"
  by pat_completeness auto
termination
  by (relation "measure (\<lambda>(old, new, s). length s)") (auto simp: neq_Nil_conv)

declare str_replace.simps [simp del]

subsection \<open>Docstrings: \<^verbatim>\<open>inspect.cleandoc\<close> and \<^verbatim>\<open>ast.get_docstring\<close>\<close>

text \<open>\<^verbatim>\<open>str.expandtabs()\<close> with the default tab size 8; the column restarts after a
  line feed or a carriage return.\<close>

fun expandtabs_from :: "nat \<Rightarrow> string \<Rightarrow> string" where
  "expandtabs_from j [] = []"
| "expandtabs_from j (c # cs) =
     (if c = CHR 0x09
      then replicate (8 - j mod 8) (CHR '' '') @ expandtabs_from (j + (8 - j mod 8)) cs
      else if c = CHR 0x0A \<or> c = CHR 0x0D then c # expandtabs_from 0 cs
      else c # expandtabs_from (Suc j) cs)"

definition expandtabs :: "string \<Rightarrow> string" where
  "expandtabs s = expandtabs_from 0 s"

text \<open>\<^verbatim>\<open>inspect.cleandoc\<close> is modelled as CPython 3.13 and later define it, where the
  indentation of a line is its leading spaces (\<^verbatim>\<open>lstrip(' ')\<close>); earlier versions strip
  every leading white-space character. The versions agree on the empty string and on text
  whose only white space is spaces, tabs and line feeds.\<close>

definition lstrip_space :: "string \<Rightarrow> string" where
  "lstrip_space s = dropWhile (\<lambda>c. c = CHR '' '') s"

text \<open>The margin of \<^verbatim>\<open>cleandoc\<close>: the least indentation of the lines that have
  content; \<open>None\<close> stands for the initial \<^verbatim>\<open>sys.maxsize\<close>.\<close>

fun margin_of :: "string list \<Rightarrow> nat option" where
  "margin_of [] = None"
| "margin_of (l # ls) =
     (let content = length (lstrip_space l)
      in if content \<noteq> 0
         then (case margin_of ls of
                 None \<Rightarrow> Some (length l - content)
               | Some m \<Rightarrow> Some (min (length l - content) m))
         else margin_of ls)"

definition cleandoc :: "string \<Rightarrow> string" where
  "cleandoc doc =
     (let lines0 = split_on (CHR 0x0A) (expandtabs doc);
          margin = margin_of (tl lines0);
          lines1 = (case lines0 of
                      [] \<Rightarrow> []
                    | l # ls \<Rightarrow> lstrip_space l #
                        (case margin of None \<Rightarrow> ls | Some m \<Rightarrow> map (drop m) ls));
          lines2 = rev (dropWhile (\<lambda>l. l = []) (rev lines1));
          lines3 = dropWhile (\<lambda>l. l = []) lines2
      in join_with (CHR 0x0A) lines3)"

subsection \<open>The syntax tree, as far as the tool reads it\<close>

datatype const_value = Str string | NonStr

datatype expr =
    Name string
  | Constant const_value
  | List "expr list"
  | Tuple "expr list"
  | OtherExpr

datatype import_alias = Alias (alias_name: string) (asname: "string option")

text \<open>Definitions carry their name, their line number and their body; an
  \<^verbatim>\<open>ImportFrom\<close> its module (absent in \<^verbatim>\<open>from . import x\<close>), its names and its
  level (the number of leading dots).\<close>

datatype stmt =
    FunctionDef string int "stmt list"
  | AsyncFunctionDef string int "stmt list"
  | ClassDef string int "stmt list"
  | Assign "expr list" expr
  | ImportFrom "string option" "import_alias list" int
  | Expr expr
  | OtherStmt

datatype module = Module (body: "stmt list")

text \<open>\<^verbatim>\<open>ast.get_docstring\<close> on a body: the cleaned text of a first statement that is
  an expression statement holding a string constant.\<close>

fun get_docstring :: "stmt list \<Rightarrow> string option" where
  "get_docstring (Expr (Constant (Str text)) # rest) = Some (cleandoc text)"
| "get_docstring b = None"

text \<open>Python's truth value of an optional string: \<^verbatim>\<open>None\<close> and the empty string
  are false.\<close>

fun truthy :: "string option \<Rightarrow> bool" where
  "truthy None = False"
| "truthy (Some s) = (s \<noteq> [])"

definition module_docstring_ok :: "module \<Rightarrow> bool" where
  "module_docstring_ok tree = truthy (get_docstring (body tree))"

subsection \<open>The escape mechanism\<close>

definition ESCAPE_TOKENS :: "string list" where
  "ESCAPE_TOKENS = [''noqa: DOC'', ''docstring-contract: ignore'']"

text \<open>The loop of \<^verbatim>\<open>has_escape_with_reason\<close> over the tokens: the first token found
  in the lowered line decides.\<close>

fun escape_loop :: "string \<Rightarrow> string \<Rightarrow> string list \<Rightarrow> bool" where
  "escape_loop def_line lower [] = False"
| "escape_loop def_line lower (tok # toks) =
     (case str_find lower (py_lower tok) of
        None \<Rightarrow> escape_loop def_line lower toks
      | Some idx \<Rightarrow> length (py_strip (drop (idx + length tok) def_line)) > 0)"

definition has_escape_with_reason :: "string \<Rightarrow> bool" where
  "has_escape_with_reason def_line = escape_loop def_line (py_lower def_line) ESCAPE_TOKENS"

definition is_public_name :: "string \<Rightarrow> bool" where
  "is_public_name name = (\<not> prefix ''_'' name)"

subsection \<open>Paths and the file system\<close>

text \<open>A path is the list of its components below the file-system root; pure paths are
  compared component by component, as \<^verbatim>\<open>pathlib\<close> does. Paths are taken as absolute
  and free of symbolic links, so \<^verbatim>\<open>Path.resolve\<close> is the identity.\<close>

type_synonym path = "string list"

text \<open>The components of a relative path string: \<^verbatim>\<open>pathlib\<close> drops empty and
  \<^verbatim>\<open>.\<close> components and keeps \<^verbatim>\<open>..\<close>.\<close>

definition path_parts :: "string \<Rightarrow> path" where
  "path_parts s = filter (\<lambda>c. c \<noteq> [] \<and> c \<noteq> ''.'') (split_on (CHR ''/'') s)"

text \<open>\<^verbatim>\<open>str\<close> and \<^verbatim>\<open>as_posix\<close> of a relative path: the empty path prints as a
  dot.\<close>

definition as_posix :: "path \<Rightarrow> string" where
  "as_posix rel = (if rel = [] then ''.'' else join_with (CHR ''/'') rel)"

text \<open>\<^verbatim>\<open>t.relative_to(root)\<close>; \<open>None\<close> is the \<^verbatim>\<open>ValueError\<close>.\<close>

definition relative_to :: "path \<Rightarrow> path \<Rightarrow> path option" where
  "relative_to t root = (if prefix root t then Some (drop (length root) t) else None)"

datatype syntax_error = SyntaxError int int string

text \<open>A source file is what the two readers of the tool see of it: the result of
  \<^verbatim>\<open>ast.parse\<close> on its text and the result of \<^verbatim>\<open>splitlines\<close> on its text.\<close>

record pyfile =
  parsed :: "syntax_error + module"
  src_lines :: "string list"

datatype fsnode = File pyfile | Dir

type_synonym filesystem = "path \<Rightarrow> fsnode option"

definition path_exists :: "filesystem \<Rightarrow> path \<Rightarrow> bool" where
  "path_exists fs p = (fs p \<noteq> None)"

text \<open>The ways a run ends without a violation list: \<^verbatim>\<open>SystemExit\<close> with a fixed
  message, \<^verbatim>\<open>SystemExit\<close> with the message built from a syntax error of a file, and
  the uncaught \<^verbatim>\<open>OSError\<close> of \<^verbatim>\<open>read_text\<close> on a path that is not a file.\<close>

datatype error =
    SystemExit string
  | SyntaxExit path syntax_error
  | OSError path

record violation =
  path :: path
  lineno :: int
  message :: string

definition Violation :: "path \<Rightarrow> int \<Rightarrow> string \<Rightarrow> violation" where
  "Violation p l m = \<lparr>path = p, lineno = l, message = m\<rparr>"

definition parse_py :: "filesystem \<Rightarrow> path \<Rightarrow> error + module" where
  "parse_py fs p =
     (case fs p of
        Some (File f) \<Rightarrow>
          (case parsed f of
             Inl e \<Rightarrow> Inl (SyntaxExit p e)
           | Inr tree \<Rightarrow> Inr tree)
      | _ \<Rightarrow> Inl (OSError p))"

definition get_lines :: "filesystem \<Rightarrow> path \<Rightarrow> error + string list" where
  "get_lines fs p =
     (case fs p of
        Some (File f) \<Rightarrow> Inr (src_lines f)
      | _ \<Rightarrow> Inl (OSError p))"

subsection \<open>Reading definitions, the export list and the imports\<close>

fun is_def :: "stmt \<Rightarrow> bool" where
  "is_def (FunctionDef n l b) = True"
| "is_def (AsyncFunctionDef n l b) = True"
| "is_def (ClassDef n l b) = True"
| "is_def node = False"

fun def_name :: "stmt \<Rightarrow> string" where
  "def_name (FunctionDef n l b) = n"
| "def_name (AsyncFunctionDef n l b) = n"
| "def_name (ClassDef n l b) = n"
| "def_name node = []"

fun def_lineno :: "stmt \<Rightarrow> int" where
  "def_lineno (FunctionDef n l b) = l"
| "def_lineno (AsyncFunctionDef n l b) = l"
| "def_lineno (ClassDef n l b) = l"
| "def_lineno node = 0"

fun def_body :: "stmt \<Rightarrow> stmt list" where
  "def_body (FunctionDef n l b) = b"
| "def_body (AsyncFunctionDef n l b) = b"
| "def_body (ClassDef n l b) = b"
| "def_body node = []"

text \<open>The test \<^verbatim>\<open>doc = ast.get_docstring(node); if doc: ...\<close> on a definition.\<close>

definition has_doc :: "stmt \<Rightarrow> bool" where
  "has_doc node = truthy (get_docstring (def_body node))"

definition top_level_defs :: "module \<Rightarrow> stmt list" where
  "top_level_defs tree = filter is_def (body tree)"

text \<open>The loop over the elements of the right-hand side of \<^verbatim>\<open>__all__\<close>.\<close>

fun all_items :: "expr list \<Rightarrow> error + string list" where
  "all_items [] = Inr []"
| "all_items (Constant (Str s) # elts) =
     (case all_items elts of
        Inl e \<Rightarrow> Inl e
      | Inr items \<Rightarrow> Inr (s # items))"
| "all_items (elt # elts) =
     Inl (SystemExit
       ''__all__ must be a literal list/tuple of strings (no computed expressions).'')"

fun all_value :: "expr \<Rightarrow> error + string list" where
  "all_value (List elts) = all_items elts"
| "all_value (Tuple elts) = all_items elts"
| "all_value val = Inl (SystemExit ''__all__ must be a literal list/tuple of strings.'')"

fun is_all_target :: "expr \<Rightarrow> bool" where
  "is_all_target (Name ident) = (ident = ''__all__'')"
| "is_all_target tgt = False"

fun extract_all_body :: "stmt list \<Rightarrow> error + string list option" where
  "extract_all_body [] = Inr None"
| "extract_all_body (Assign targets val # rest) =
     (if list_ex is_all_target targets
      then (case all_value val of
              Inl e \<Rightarrow> Inl e
            | Inr items \<Rightarrow> Inr (Some items))
      else extract_all_body rest)"
| "extract_all_body (node # rest) = extract_all_body rest"

definition extract_all_list :: "module \<Rightarrow> error + string list option" where
  "extract_all_list tree = extract_all_body (body tree)"

type_synonym import_map = "string \<Rightarrow> (string \<times> string) option"

text \<open>\<^verbatim>\<open>alias.asname or alias.name\<close>: an absent or empty \<^verbatim>\<open>asname\<close> gives the
  name.\<close>

definition exported_name :: "import_alias \<Rightarrow> string" where
  "exported_name a =
     (case asname a of
        None \<Rightarrow> alias_name a
      | Some n \<Rightarrow> if n = [] then alias_name a else n)"

fun import_names :: "string \<Rightarrow> import_alias list \<Rightarrow> import_map \<Rightarrow> import_map" where
  "import_names base [] mapping = mapping"
| "import_names base (a # names) mapping =
     import_names base names (mapping(exported_name a \<mapsto> (base, alias_name a)))"

fun import_map_body :: "stmt list \<Rightarrow> import_map \<Rightarrow> import_map" where
  "import_map_body [] mapping = mapping"
| "import_map_body (ImportFrom module names level # rest) mapping =
     import_map_body rest
       (if level \<ge> 1
        then import_names (case module of None \<Rightarrow> [] | Some b \<Rightarrow> b) names mapping
        else mapping)"
| "import_map_body (node # rest) mapping = import_map_body rest mapping"

definition import_map_from_init :: "module \<Rightarrow> import_map" where
  "import_map_from_init tree = import_map_body (body tree) Map.empty"

text \<open>\<^verbatim>\<open>Path(*dotted.split("."))\<close> for a non-empty dotted name, the empty path
  otherwise. The candidate with the source extension is built from \<^verbatim>\<open>str(rel)\<close>,
  which is never the empty string: the empty path prints as a dot.\<close>

definition resolve_module_file :: "filesystem \<Rightarrow> path \<Rightarrow> string \<Rightarrow> path option" where
  "resolve_module_file fs pkg dotted =
     (let rel = (if dotted \<noteq> [] then concat (map path_parts (split_on (CHR ''.'') dotted))
                 else []);
          cand1 = (if as_posix rel \<noteq> [] then Some (pkg @ path_parts (as_posix rel @ ''.py''))
                   else None);
          cand2 = pkg @ rel @ [''__init__.py'']
      in if (case cand1 of None \<Rightarrow> False | Some c \<Rightarrow> path_exists fs c) then cand1
         else if path_exists fs cand2 then Some cand2
         else None)"

definition find_top_level_symbol :: "module \<Rightarrow> string \<Rightarrow> stmt option" where
  "find_top_level_symbol tree name = find (\<lambda>node. def_name node = name) (top_level_defs tree)"

subsection \<open>The checks of the three tiers\<close>

definition quoted :: "string \<Rightarrow> string" where
  "quoted s = CHR 0x27 # s @ [CHR 0x27]"

text \<open>\<^verbatim>\<open>lines[lineno - 1] if 1 <= lineno <= len(lines) else ""\<close>\<close>

definition line_at :: "string list \<Rightarrow> int \<Rightarrow> string" where
  "line_at lines l = (if 1 \<le> l \<and> l \<le> int (length lines) then lines ! nat (l - 1) else [])"

text \<open>One round of the loop of \<^verbatim>\<open>check_api_file\<close> over the top-level definitions.\<close>

definition api_def_violations :: "path \<Rightarrow> string list \<Rightarrow> stmt \<Rightarrow> violation list" where
  "api_def_violations p lines node =
     (if \<not> is_public_name (def_name node) then []
      else if has_doc node then []
      else if has_escape_with_reason (line_at lines (def_lineno node)) then []
      else [Violation p (def_lineno node)
              (''Public symbol '' @ quoted (def_name node) @ '' is missing a docstring.'')])"

definition check_api_file :: "filesystem \<Rightarrow> path \<Rightarrow> error + violation list" where
  "check_api_file fs p =
     (case parse_py fs p of
        Inl e \<Rightarrow> Inl e
      | Inr tree \<Rightarrow>
          (case get_lines fs p of
             Inl e \<Rightarrow> Inl e
           | Inr lines \<Rightarrow>
               Inr ((if \<not> module_docstring_ok tree
                     then [Violation p 1
                             ''Missing module docstring (required for public API file).'']
                     else [])
                    @ concat (map (api_def_violations p lines) (top_level_defs tree)))))"

definition check_core_module :: "filesystem \<Rightarrow> path \<Rightarrow> error + violation list" where
  "check_core_module fs p =
     (case parse_py fs p of
        Inl e \<Rightarrow> Inl e
      | Inr tree \<Rightarrow>
          Inr (if \<not> module_docstring_ok tree
               then [Violation p 1
                 ''Missing module header docstring (required for core infrastructure module).'']
               else []))"

text \<open>One round of the loop of \<^verbatim>\<open>check_init_exports\<close> over the exported names. The
  second half of the message for a name without an import is not an f-string in the
  source, so it holds the braces as they are.\<close>

definition check_export ::
  "filesystem \<Rightarrow> path \<Rightarrow> path \<Rightarrow> import_map \<Rightarrow> string \<Rightarrow> error + violation list" where
  "check_export fs init_path pkg imports name =
     (if prefix ''_'' name
      then Inr [Violation init_path 1
                  (''__all__ contains private name '' @ quoted name @ ''.'')]
      else
       (case imports name of
          None \<Rightarrow>
            Inr [Violation init_path 1
                   (''__all__ exports '' @ quoted name @ '' but ''
                    @ ''it is not imported via a simple '' @ quoted ''from .x import {name}''
                    @ '' mapping.'')]
        | Some (mod_dotted, original) \<Rightarrow>
           (case resolve_module_file fs pkg mod_dotted of
              None \<Rightarrow>
                Inr [Violation init_path 1
                       (''Cannot resolve module '' @ quoted (''.'' @ mod_dotted)
                        @ '' for exported '' @ quoted name @ ''.'')]
            | Some mod_file \<Rightarrow>
               (case parse_py fs mod_file of
                  Inl e \<Rightarrow> Inl e
                | Inr mod_tree \<Rightarrow>
                   (case find_top_level_symbol mod_tree original of
                      None \<Rightarrow>
                        Inr [Violation mod_file 1
                               (''Exported '' @ quoted name @ '' maps to '' @ quoted original
                                @ '' but symbol not found.'')]
                    | Some symb \<Rightarrow>
                        if has_doc symb then Inr []
                        else
                         (case get_lines fs mod_file of
                            Inl e \<Rightarrow> Inl e
                          | Inr lines \<Rightarrow>
                              if has_escape_with_reason (line_at lines (def_lineno symb))
                              then Inr []
                              else Inr [Violation mod_file (def_lineno symb)
                                          (''Exported public symbol '' @ quoted name
                                           @ '' is missing a docstring.'')]))))))"

fun check_exports ::
  "filesystem \<Rightarrow> path \<Rightarrow> path \<Rightarrow> import_map \<Rightarrow> string list \<Rightarrow> error + violation list" where
  "check_exports fs init_path pkg imports [] = Inr []"
| "check_exports fs init_path pkg imports (name # names) =
     (case check_export fs init_path pkg imports name of
        Inl e \<Rightarrow> Inl e
      | Inr v1 \<Rightarrow>
          (case check_exports fs init_path pkg imports names of
             Inl e \<Rightarrow> Inl e
           | Inr v2 \<Rightarrow> Inr (v1 @ v2)))"

definition init_doc_violations :: "path \<Rightarrow> module \<Rightarrow> violation list" where
  "init_doc_violations init_path tree =
     (if \<not> module_docstring_ok tree
      then [Violation init_path 1
              ''Missing module docstring in package __init__.py (public file).'']
      else [])"

definition check_init_exports :: "filesystem \<Rightarrow> path \<Rightarrow> path \<Rightarrow> error + violation list" where
  "check_init_exports fs init_path pkg =
     (case parse_py fs init_path of
        Inl e \<Rightarrow> Inl e
      | Inr tree \<Rightarrow>
          (case extract_all_list tree of
             Inl e \<Rightarrow> Inl e
           | Inr None \<Rightarrow>
               Inr (init_doc_violations init_path tree
                    @ [Violation init_path 1
                         ''__all__ is missing; public files must be explicit.''])
           | Inr (Some exported) \<Rightarrow>
               (case check_exports fs init_path pkg (import_map_from_init tree) exported of
                  Inl e \<Rightarrow> Inl e
                | Inr vs \<Rightarrow> Inr (init_doc_violations init_path tree @ vs))))"

subsection \<open>The run: scope, routing by tier, report\<close>

definition CORE_MODULES :: "string list" where
  "CORE_MODULES =
     [''src/diffusion_core/config/load.py'',
      ''src/diffusion_core/runs/layout.py'',
      ''src/diffusion_core/executor.py'',
      ''src/diffusion_core/logging.py'',
      ''src/diffusion_core/eval/metrics.py'',
      ''src/diffusion_core/eval/metrics/__init__.py'',
      ''src/diffusion_core/checkpointing.py'',
      ''src/diffusion_core/determinism.py'']"

definition substitute_pkg :: "string list \<Rightarrow> string \<Rightarrow> string list" where
  "substitute_pkg paths pkg_name =
     map (str_replace ''src/diffusion_core/'' (''src/'' @ pkg_name @ ''/'')) paths"

text \<open>The scope of a run. For the full sweep the file system's answer to
  \<^verbatim>\<open>api_dir.rglob("*.py")\<close>, filtered to files, is given with the scope, in the order
  the file system enumerates it; for the other two scopes the list of changed paths that
  git prints is given.\<close>

datatype scope = All "path list" | Changed "string list"

text \<open>The package directory is \<^verbatim>\<open>ROOT / "src" / pkg_name\<close>.\<close>

definition pkg_of :: "path \<Rightarrow> string \<Rightarrow> path" where
  "pkg_of root pkg_name = root @ [''src'', pkg_name]"

definition candidates :: "filesystem \<Rightarrow> path \<Rightarrow> string \<Rightarrow> path list \<Rightarrow> path list" where
  "candidates fs root pkg_name listing =
     (if path_exists fs (pkg_of root pkg_name @ [''api'']) then listing else [])
     @ [pkg_of root pkg_name @ [''__init__.py'']]
     @ filter (path_exists fs)
         (map (\<lambda>rel. root @ path_parts rel) (remdups (substitute_pkg CORE_MODULES pkg_name)))"

definition targets_of :: "filesystem \<Rightarrow> path \<Rightarrow> string \<Rightarrow> scope \<Rightarrow> path list" where
  "targets_of fs root pkg_name sc =
     (case sc of
        All listing \<Rightarrow> sort (remdups (candidates fs root pkg_name listing))
      | Changed changed \<Rightarrow>
          map (\<lambda>p. root @ path_parts p) (filter (suffix ''.py'') changed))"

text \<open>One round of the loop of \<^verbatim>\<open>main\<close> over the targets: entry tier first, then API
  tier, then core tier; a target outside the repository or of no tier is skipped.\<close>

definition check_target ::
  "filesystem \<Rightarrow> path \<Rightarrow> string \<Rightarrow> path \<Rightarrow> error + violation list" where
  "check_target fs root pkg_name t =
     (let pkg = pkg_of root pkg_name;
          api_dir = pkg @ [''api''];
          init_path = pkg @ [''__init__.py'']
      in case relative_to t root of
           None \<Rightarrow> Inr []
         | Some r \<Rightarrow>
             if as_posix r = as_posix [''src'', pkg_name, ''__init__.py'']
             then check_init_exports fs init_path pkg
             else if path_exists fs api_dir \<and> strict_prefix api_dir t
             then check_api_file fs t
             else if as_posix r \<in> set (substitute_pkg CORE_MODULES pkg_name)
             then check_core_module fs t
             else Inr [])"

fun run_targets ::
  "filesystem \<Rightarrow> path \<Rightarrow> string \<Rightarrow> path list \<Rightarrow> error + violation list" where
  "run_targets fs root pkg_name [] = Inr []"
| "run_targets fs root pkg_name (t # ts) =
     (case check_target fs root pkg_name t of
        Inl e \<Rightarrow> Inl e
      | Inr v1 \<Rightarrow>
          (case run_targets fs root pkg_name ts of
             Inl e \<Rightarrow> Inl e
           | Inr v2 \<Rightarrow> Inr (v1 @ v2)))"

text \<open>The result of \<^verbatim>\<open>main\<close> once the package is known: the violations in the order
  the report prints them, and the exit status.\<close>

record outcome =
  report :: "violation list"
  exit_code :: int

definition main :: "filesystem \<Rightarrow> path \<Rightarrow> string \<Rightarrow> scope \<Rightarrow> error + outcome" where
  "main fs root pkg_name sc =
     (case run_targets fs root pkg_name (targets_of fs root pkg_name sc) of
        Inl e \<Rightarrow> Inl e
      | Inr violations \<Rightarrow>
          Inr \<lparr>report = violations, exit_code = (if violations \<noteq> [] then 1 else 0)\<rparr>)"

section \<open>Reference readings and example inputs\<close>

subsection \<open>The escape rule in the words of the specification\<close>

text \<open>A token suppresses when it occurs somewhere in the line, compared without regard
  to case, and some character after that occurrence is not white space.\<close>

definition suppressed_by_token :: "string \<Rightarrow> string \<Rightarrow> bool" where
  "suppressed_by_token line tok =
     list_ex (\<lambda>i. py_lower (take (length tok) (drop i line)) = py_lower tok
                 \<and> list_ex (\<lambda>c. \<not> py_isspace c) (drop (i + length tok) line))
       [0..<Suc (length line)]"

definition suppressed_spec :: "string \<Rightarrow> bool" where
  "suppressed_spec line = list_ex (suppressed_by_token line) ESCAPE_TOKENS"

text \<open>A definition line that carries the second token with a reason, and the first token
  at its very end.\<close>

definition two_tokens_line :: string where
  "two_tokens_line = ''def f():  # docstring-contract: ignore legacy API, noqa: DOC''"

subsection \<open>Shapes of the entry file\<close>

text \<open>A statement that assigns to \<^verbatim>\<open>__all__\<close>; a right-hand side that is a literal
  list or tuple of string constants.\<close>

fun assigns_all :: "stmt \<Rightarrow> bool" where
  "assigns_all (Assign targets val) = list_ex is_all_target targets"
| "assigns_all node = False"

fun is_str_constant :: "expr \<Rightarrow> bool" where
  "is_str_constant (Constant (Str s)) = True"
| "is_str_constant elt = False"

fun literal_strings :: "expr \<Rightarrow> bool" where
  "literal_strings (List elts) = list_all is_str_constant elts"
| "literal_strings (Tuple elts) = list_all is_str_constant elts"
| "literal_strings val = False"

subsection \<open>Example repositories\<close>

text \<open>A file that parses, given by its statements and its lines.\<close>

definition source_file :: "stmt list \<Rightarrow> string list \<Rightarrow> fsnode" where
  "source_file b lines = File \<lparr>parsed = Inr (Module b), src_lines = lines\<rparr>"

definition repo :: path where
  "repo = [''repo'']"

definition pkg_ex :: path where
  "pkg_ex = [''repo'', ''src'', ''pkg'']"

definition init_ex :: path where
  "init_ex = [''repo'', ''src'', ''pkg'', ''__init__.py'']"

definition dirs_ex :: filesystem where
  "dirs_ex =
     [[''repo''] \<mapsto> Dir, [''repo'', ''src''] \<mapsto> Dir, [''repo'', ''src'', ''pkg''] \<mapsto> Dir]"

text \<open>An empty entry file.\<close>

definition fs_bare :: filesystem where
  "fs_bare = dirs_ex(init_ex \<mapsto> source_file [] [])"

text \<open>An entry file with a header docstring and an import, and no export list.\<close>

definition body_no_all :: "stmt list" where
  "body_no_all =
     [Expr (Constant (Str ''Package.'')),
      ImportFrom (Some ''core'') [Alias ''run'' None] 1]"

definition fs_no_all :: filesystem where
  "fs_no_all =
     dirs_ex(init_ex \<mapsto>
       source_file body_no_all [''\"\"\"Package.\"\"\"'', ''from .core import run''])"

text \<open>A package whose entry file defines and exports \<^verbatim>\<open>helper\<close> through
  \<^verbatim>\<open>from . import helper\<close>, and whose directory also holds a file named
  \<^verbatim>\<open>..py\<close>.\<close>

definition fs_dotpy :: filesystem where
  "fs_dotpy = dirs_ex(
     init_ex \<mapsto> source_file
       [Expr (Constant (Str ''Package.'')),
        ImportFrom None [Alias ''helper'' None] 1,
        Assign [Name ''__all__''] (List [Constant (Str ''helper'')]),
        FunctionDef ''helper'' 4 [Expr (Constant (Str ''Help.''))]]
       [''\"\"\"Package.\"\"\"'', ''from . import helper'', ''__all__ = [\"helper\"]'',
        ''def helper(): \"\"\"Help.\"\"\"''],
     [''repo'', ''src'', ''pkg'', ''..py''] \<mapsto>
       source_file [Expr (Constant (Str ''Notes.''))] [''\"\"\"Notes.\"\"\"''])"

subsection \<open>The import bindings of an entry file, in the order of its text\<close>

text \<open>The bindings that one statement makes, as triples of local name, module path and
  original name, for the import statements whose level is accepted.\<close>

fun bindings_at :: "(int \<Rightarrow> bool) \<Rightarrow> stmt \<Rightarrow> (string \<times> string \<times> string) list" where
  "bindings_at accepted (ImportFrom module names level) =
     (if accepted level
      then map (\<lambda>a. (exported_name a, (case module of None \<Rightarrow> [] | Some b \<Rightarrow> b),
                      alias_name a)) names
      else [])"
| "bindings_at accepted node = []"

definition bindings_of ::
  "(int \<Rightarrow> bool) \<Rightarrow> stmt list \<Rightarrow> string \<Rightarrow> (string \<times> string) list" where
  "bindings_of accepted b name =
     map snd (filter (\<lambda>x. fst x = name) (concat (map (bindings_at accepted) b)))"

text \<open>The bindings of a name by relative imports of any level, and by relative imports
  of level one only.\<close>

definition relative_bindings :: "stmt list \<Rightarrow> string \<Rightarrow> (string \<times> string) list" where
  "relative_bindings b name = bindings_of (\<lambda>level. 1 \<le> level) b name"

definition single_level_bindings :: "stmt list \<Rightarrow> string \<Rightarrow> (string \<times> string) list" where
  "single_level_bindings b name = bindings_of (\<lambda>level. level = 1) b name"

text \<open>\<^verbatim>\<open>from .a import X\<close>, \<^verbatim>\<open>from .b import X\<close>, \<^verbatim>\<open>from ..c import X\<close>\<close>

definition three_imports :: "stmt list" where
  "three_imports =
     [ImportFrom (Some ''a'') [Alias ''X'' None] 1,
      ImportFrom (Some ''b'') [Alias ''X'' None] 1,
      ImportFrom (Some ''c'') [Alias ''X'' None] 2]"

text \<open>An entry file whose export list is computed.\<close>

definition body_computed :: "stmt list" where
  "body_computed = [Expr (Constant (Str ''Package.'')), Assign [Name ''__all__''] OtherExpr]"

definition fs_computed :: filesystem where
  "fs_computed =
     dirs_ex(init_ex \<mapsto>
       source_file body_computed [''\"\"\"Package.\"\"\"'', ''__all__ = sorted(names)''])"

subsection \<open>Exports without a binding\<close>

text \<open>The violation that the loop over the exports records for a name without a binding:
  for a private name, and for a public one.\<close>

definition private_name_violation :: "path \<Rightarrow> string \<Rightarrow> violation" where
  "private_name_violation init_path name =
     Violation init_path 1 (''__all__ contains private name '' @ quoted name @ ''.'')"

definition not_imported_violation :: "path \<Rightarrow> string \<Rightarrow> violation" where
  "not_imported_violation init_path name =
     Violation init_path 1
       (''__all__ exports '' @ quoted name @ '' but ''
        @ ''it is not imported via a simple '' @ quoted ''from .x import {name}''
        @ '' mapping.'')"

definition unbound_export_violation :: "path \<Rightarrow> string \<Rightarrow> violation" where
  "unbound_export_violation init_path name =
     (if prefix ''_'' name then private_name_violation init_path name
      else not_imported_violation init_path name)"

text \<open>An entry file that exports \<^verbatim>\<open>run\<close> and binds it by a wildcard import only; one
  that binds it by an import of level two.\<close>

definition body_wildcard :: "stmt list" where
  "body_wildcard =
     [Expr (Constant (Str ''Package.'')),
      ImportFrom (Some ''core'') [Alias ''*'' None] 1,
      Assign [Name ''__all__''] (List [Constant (Str ''run'')])]"

definition file_core_run :: fsnode where
  "file_core_run = source_file
     [Expr (Constant (Str ''Core.'')), FunctionDef ''run'' 3 [Expr (Constant (Str ''Run.''))]]
     [''\"\"\"Core.\"\"\"'', '''', ''def run(): \"\"\"Run.\"\"\"'']"

definition fs_wildcard :: filesystem where
  "fs_wildcard = dirs_ex(
     init_ex \<mapsto> source_file body_wildcard
       [''\"\"\"Package.\"\"\"'', ''from .core import *'', ''__all__ = [\"run\"]''],
     [''repo'', ''src'', ''pkg'', ''core.py''] \<mapsto> file_core_run)"

definition body_multi :: "stmt list" where
  "body_multi =
     [Expr (Constant (Str ''Package.'')),
      ImportFrom (Some ''core'') [Alias ''run'' None] 2,
      Assign [Name ''__all__''] (List [Constant (Str ''run'')])]"

definition fs_multi :: filesystem where
  "fs_multi = dirs_ex(
     init_ex \<mapsto> source_file body_multi
       [''\"\"\"Package.\"\"\"'', ''from ..core import run'', ''__all__ = [\"run\"]''],
     [''repo'', ''src'', ''pkg'', ''core.py''] \<mapsto> file_core_run)"




subsection \<open>Runs and reports\<close>

text \<open>The violation set of checking one target on its own: the loop of \<^verbatim>\<open>main\<close> over
  the one-element target list; empty when that check ends the run.\<close>

definition violations_of_target :: "filesystem \<Rightarrow> path \<Rightarrow> string \<Rightarrow> path \<Rightarrow> violation set" where
  "violations_of_target fs root pkg_name t =
     (case run_targets fs root pkg_name [t] of Inl e \<Rightarrow> {} | Inr ws \<Rightarrow> set ws)"

text \<open>The keys by which a sorted report would be ordered.\<close>

definition report_keys :: "violation list \<Rightarrow> (path \<times> int) list" where
  "report_keys vs = map (\<lambda>v. (path v, lineno v)) vs"

text \<open>A package whose entry file exports \<^verbatim>\<open>B\<close> before \<^verbatim>\<open>A\<close>, both undocumented in
  their origin files, and the same package with an API directory of two files.\<close>

definition undocumented :: "string \<Rightarrow> fsnode" where
  "undocumented n =
     source_file [Expr (Constant (Str ''Module.'')), FunctionDef n 3 [OtherStmt]]
       [''\"\"\"Module.\"\"\"'', '''', ''def '' @ n @ ''(): pass'']"

definition fs_unsorted :: filesystem where
  "fs_unsorted = dirs_ex(
     init_ex \<mapsto> source_file
        [Expr (Constant (Str ''Package.'')),
         ImportFrom (Some ''b'') [Alias ''B'' None] 1,
         ImportFrom (Some ''a'') [Alias ''A'' None] 1,
         Assign [Name ''__all__''] (List [Constant (Str ''B''), Constant (Str ''A'')])]
        [''\"\"\"Package.\"\"\"'', ''from .b import B'', ''from .a import A'',
         ''__all__ = [\"B\", \"A\"]''],
     [''repo'', ''src'', ''pkg'', ''a.py''] \<mapsto> undocumented ''A'',
     [''repo'', ''src'', ''pkg'', ''b.py''] \<mapsto> undocumented ''B'')"

definition missing_doc_violation :: "path \<Rightarrow> int \<Rightarrow> string \<Rightarrow> violation" where
  "missing_doc_violation mod_file l name =
     Violation mod_file l (''Exported public symbol '' @ quoted name @ '' is missing a docstring.'')"

definition fs_api :: filesystem where
  "fs_api = fs_unsorted(
     [''repo'', ''src'', ''pkg'', ''api''] \<mapsto> Dir,
     [''repo'', ''src'', ''pkg'', ''api'', ''a.py''] \<mapsto> undocumented ''f'',
     [''repo'', ''src'', ''pkg'', ''api'', ''b.py''] \<mapsto> undocumented ''g'')"

text \<open>An enumeration of the API directory of that package.\<close>

definition listing_api :: "path list" where
  "listing_api = [pkg_ex @ [''api'', ''b.py''], pkg_ex @ [''api'', ''a.py'']]"

text \<open>The violations that the round of the loop of \<^verbatim>\<open>main\<close> for one target adds to
  the list.\<close>

definition target_violations :: "filesystem \<Rightarrow> path \<Rightarrow> string \<Rightarrow> path \<Rightarrow> violation list" where
  "target_violations fs root pkg_name t =
     (case check_target fs root pkg_name t of Inl e \<Rightarrow> [] | Inr ws \<Rightarrow> ws)"

text \<open>An entry file that assigns a literal export list and, after it, a computed one.\<close>

definition body_two_all :: "stmt list" where
  "body_two_all =
     [Expr (Constant (Str ''Package.'')),
      ImportFrom (Some ''core'') [Alias ''run'' None] 1,
      Assign [Name ''__all__''] (List [Constant (Str ''run'')]),
      Assign [Name ''__all__''] OtherExpr]"

definition fs_two_all :: filesystem where
  "fs_two_all = dirs_ex(
     init_ex \<mapsto> source_file body_two_all
       [''\"\"\"Package.\"\"\"'', ''from .core import run'', ''__all__ = [\"run\"]'',
        ''__all__ = sorted(names)''],
     [''repo'', ''src'', ''pkg'', ''core.py''] \<mapsto> file_core_run)"

section \<open>Properties\<close>

subsection \<open>Presence of documentation\<close>

lemma truthy_get_docstring:
  "truthy (get_docstring b) \<longleftrightarrow>
     (\<exists>text rest. b = Expr (Constant (Str text)) # rest \<and> cleandoc text \<noteq> [])"
  by (cases b rule: get_docstring.cases) auto

text \<open>
  Claim C5, as amended. The header documentation of a file is present exactly when the
  first statement of the file is a standalone string literal whose text is not empty
  after the cleaning of \<^verbatim>\<open>ast.get_docstring\<close>; a definition has documentation
  exactly when the first statement of its body is such a literal.
\<close>

theorem docstring_presence:
  "(module_docstring_ok tree \<longleftrightarrow>
      (\<exists>text rest. body tree = Expr (Constant (Str text)) # rest \<and> cleandoc text \<noteq> []))
   \<and> (has_doc node \<longleftrightarrow>
      (\<exists>text rest. def_body node = Expr (Constant (Str text)) # rest \<and> cleandoc text \<noteq> []))"
  by (simp only: module_docstring_ok_def has_doc_def truthy_get_docstring)

text \<open>
  Claim C5, as stated, fails for the empty literal: a file and a function whose first
  statement is the empty string literal count as undocumented.
\<close>

theorem empty_docstring_is_absent:
  "\<not> module_docstring_ok (Module [Expr (Constant (Str ''''))])
   \<and> \<not> has_doc (FunctionDef ''f'' 1 [Expr (Constant (Str ''''))])"
  by code_simp

subsection \<open>The escape mechanism\<close>

text \<open>
  Claim C2 at one line. The line holds the token \<^verbatim>\<open>docstring-contract: ignore\<close> with a
  reason after it, so the rule suppresses the violation; the tool looks at the token
  \<^verbatim>\<open>noqa: DOC\<close> first, finds nothing after it, and answers without trying the other
  token.
\<close>

theorem escape_first_token_decides:
  "has_escape_with_reason two_tokens_line = False \<and> suppressed_spec two_tokens_line = True"
  by code_simp

subsection \<open>The export list\<close>

text \<open>The first statement that assigns to \<^verbatim>\<open>__all__\<close> decides the export list.\<close>

lemma extract_all_body_find:
  "extract_all_body b =
     (case find assigns_all b of
        None \<Rightarrow> Inr None
      | Some node \<Rightarrow>
          (case node of
             Assign targets val \<Rightarrow>
               (case all_value val of Inl e \<Rightarrow> Inl e | Inr items \<Rightarrow> Inr (Some items))
           | _ \<Rightarrow> Inr None))"
  by (induction b rule: extract_all_body.induct) simp_all

lemma all_items_not_strings:
  "\<not> list_all is_str_constant elts \<Longrightarrow> \<exists>msg. all_items elts = Inl (SystemExit msg)"
  by (induction elts rule: all_items.induct) (auto split: sum.splits)

lemma all_value_not_literal:
  "\<not> literal_strings val \<Longrightarrow> \<exists>msg. all_value val = Inl (SystemExit msg)"
  by (cases val) (auto dest: all_items_not_strings)

text \<open>
  Claim C3, as amended. For an entry file that parses and has no assignment to
  \<^verbatim>\<open>__all__\<close> among its statements, the check returns the violation
  ``\<^verbatim>\<open>__all__\<close> is missing'' at line 1 of the entry file, after the violation for a
  missing header docstring when the file has none, and nothing else: no export is
  looked at.
\<close>

theorem missing_all_short_circuit:
  "parse_py fs init_path = Inr tree \<Longrightarrow> find assigns_all (body tree) = None \<Longrightarrow>
   check_init_exports fs init_path pkg =
     Inr ((if module_docstring_ok tree then []
           else [Violation init_path 1
                   ''Missing module docstring in package __init__.py (public file).''])
          @ [Violation init_path 1 ''__all__ is missing; public files must be explicit.''])"
  by (simp add: check_init_exports_def extract_all_list_def extract_all_body_find
        init_doc_violations_def)

theorem missing_all_short_circuit_witness:
  "parse_py fs_no_all init_ex = Inr (Module body_no_all)
   \<and> find assigns_all (body (Module body_no_all)) = None
   \<and> check_init_exports fs_no_all init_ex pkg_ex =
       Inr [Violation init_ex 1 ''__all__ is missing; public files must be explicit.'']"
proof -
  have h1: "parse_py fs_no_all init_ex = Inr (Module body_no_all)"
    by code_simp
  have h2: "find assigns_all (body (Module body_no_all)) = None"
    by code_simp
  have h3: "module_docstring_ok (Module body_no_all)"
    by code_simp
  show ?thesis
    using missing_all_short_circuit [OF h1 h2, of pkg_ex] h1 h2 h3 by simp
qed

text \<open>
  Claim C3, as stated, fails for an entry file without a header docstring: the empty
  entry file gets two violations, the missing docstring and the missing export list.
\<close>

theorem missing_all_two_violations:
  "check_init_exports fs_bare init_ex pkg_ex =
     Inr [Violation init_ex 1 ''Missing module docstring in package __init__.py (public file).'',
          Violation init_ex 1 ''__all__ is missing; public files must be explicit.'']"
  by code_simp

subsection \<open>Resolution of the origin module\<close>

text \<open>
  Claim C10 at one package. The entry file binds \<^verbatim>\<open>helper\<close> by
  \<^verbatim>\<open>from . import helper\<close> and defines it with a docstring. The empty dotted path is
  resolved to the file \<^verbatim>\<open>..py\<close> of the package directory, not to the entry file,
  and the export is reported as not found there.
\<close>

theorem empty_module_path_resolves_to_dot_py:
  "resolve_module_file fs_dotpy pkg_ex '''' = Some (pkg_ex @ [''..py''])
   \<and> check_init_exports fs_dotpy init_ex pkg_ex =
       Inr [Violation (pkg_ex @ [''..py'']) 1
              (''Exported '' @ quoted ''helper'' @ '' maps to '' @ quoted ''helper''
               @ '' but symbol not found.'')]"
  by code_simp

subsection \<open>The import map\<close>

lemma import_names_eq:
  "import_names base names m =
     m ++ map_of (rev (map (\<lambda>a. (exported_name a, base, alias_name a)) names))"
  by (induction names arbitrary: m) (auto simp: map_add_def fun_eq_iff split: option.splits)

lemma import_map_body_eq:
  "import_map_body b m =
     m ++ map_of (rev (concat (map (bindings_at (\<lambda>level. 1 \<le> level)) b)))"
  by (induction b m rule: import_map_body.induct)
     (auto simp: import_names_eq map_add_def fun_eq_iff split: option.splits)

lemma map_of_rev_last:
  "map_of (rev xs) k =
     (if map snd (filter (\<lambda>x. fst x = k) xs) = [] then None
      else Some (last (map snd (filter (\<lambda>x. fst x = k) xs))))"
  by (induction xs rule: rev_induct) auto

lemma import_map_from_init_bindings:
  "import_map_from_init tree name =
     (if relative_bindings (body tree) name = [] then None
      else Some (last (relative_bindings (body tree) name)))"
  by (simp add: import_map_from_init_def import_map_body_eq relative_bindings_def
        bindings_of_def map_of_rev_last)

text \<open>
  Claim C9, as amended. When a local name is bound by one or more relative
  import-from statements of the entry file, of any level, the import map holds for it the
  binding of the last of them in the order of the text, and nothing for a name that none
  of them binds; so a name has at most one origin.
\<close>

theorem import_map_last_binding_wins:
  "import_map_from_init tree name =
     (if relative_bindings (body tree) name = [] then None
      else Some (last (relative_bindings (body tree) name)))"
  by (rule import_map_from_init_bindings)

text \<open>
  Claim C9, as stated, fails when an import of level two follows: the map holds the
  binding of that import, not the binding of the last import of level one.
\<close>

theorem import_map_multi_level_overrides:
  "import_map_from_init (Module three_imports) ''X'' = Some (''c'', ''X'')
   \<and> last (single_level_bindings three_imports ''X'') = (''b'', ''X'')"
  by code_simp

subsection \<open>A computed export list\<close>

lemma check_target_init:
  "check_target fs root pkg_name (pkg_of root pkg_name @ [''__init__.py'']) =
     check_init_exports fs (pkg_of root pkg_name @ [''__init__.py'']) (pkg_of root pkg_name)"
  by (simp add: check_target_def pkg_of_def relative_to_def)

lemma init_in_targets:
  "pkg_of root pkg_name @ [''__init__.py''] \<in> set (targets_of fs root pkg_name (All listing))"
  by (simp add: targets_of_def candidates_def)

lemma run_targets_Inl:
  "t \<in> set ts \<Longrightarrow> check_target fs root pkg_name t = Inl e \<Longrightarrow>
   \<exists>e'. run_targets fs root pkg_name ts = Inl e'"
  by (induction ts) (auto split: sum.splits)

text \<open>
  Claim C7, as amended. When the entry file parses and the right-hand side of the first
  top-level assignment statement that has \<^verbatim>\<open>__all__\<close> among its targets is not a
  literal list or tuple of string constants, the check of the entry file ends in
  \<^verbatim>\<open>SystemExit\<close>, and so does every full sweep: no violation list is produced.
\<close>

theorem computed_all_is_fatal:
  assumes "parse_py fs (pkg_of root pkg_name @ [''__init__.py'']) = Inr tree"
    and "find assigns_all (body tree) = Some (Assign targets val)"
    and "\<not> literal_strings val"
  shows "(\<exists>msg. check_init_exports fs (pkg_of root pkg_name @ [''__init__.py''])
                  (pkg_of root pkg_name) = Inl (SystemExit msg))
       \<and> (\<exists>e. main fs root pkg_name (All listing) = Inl e)"
proof -
  from assms(3) obtain msg where m: "all_value val = Inl (SystemExit msg)"
    using all_value_not_literal by blast
  have c: "check_init_exports fs (pkg_of root pkg_name @ [''__init__.py''])
             (pkg_of root pkg_name) = Inl (SystemExit msg)"
    using assms(1,2) m
    by (simp add: check_init_exports_def extract_all_list_def extract_all_body_find)
  then have "check_target fs root pkg_name (pkg_of root pkg_name @ [''__init__.py''])
      = Inl (SystemExit msg)"
    by (simp add: check_target_init)
  then obtain e' where
    "run_targets fs root pkg_name (targets_of fs root pkg_name (All listing)) = Inl e'"
    using run_targets_Inl [OF init_in_targets] by blast
  then have "main fs root pkg_name (All listing) = Inl e'"
    by (simp add: main_def)
  with c show ?thesis by blast
qed

theorem computed_all_is_fatal_witness:
  "parse_py fs_computed (pkg_of repo ''pkg'' @ [''__init__.py'']) = Inr (Module body_computed)
   \<and> find assigns_all (body (Module body_computed)) = Some (Assign [Name ''__all__''] OtherExpr)
   \<and> \<not> literal_strings OtherExpr
   \<and> (\<exists>msg. check_init_exports fs_computed (pkg_of repo ''pkg'' @ [''__init__.py''])
                  (pkg_of repo ''pkg'') = Inl (SystemExit msg))
   \<and> (\<exists>e. main fs_computed repo ''pkg'' (All []) = Inl e)"
proof -
  have h1: "parse_py fs_computed (pkg_of repo ''pkg'' @ [''__init__.py'']) =
      Inr (Module body_computed)"
    by code_simp
  have h2: "find assigns_all (body (Module body_computed)) =
      Some (Assign [Name ''__all__''] OtherExpr)"
    by code_simp
  have h3: "\<not> literal_strings OtherExpr"
    by simp
  show ?thesis
    using computed_all_is_fatal [OF h1 h2 h3, of "[]"] h1 h2 h3 by blast
qed

text \<open>
  Claim C7, as stated, fails for an assignment to \<^verbatim>\<open>__all__\<close> that is not the first:
  the entry file assigns a literal list and then a computed value, the first assignment
  decides, and the run ends with an empty report and exit status 0.
\<close>

theorem later_computed_all_is_ignored:
  "parse_py fs_two_all init_ex = Inr (Module body_two_all)
   \<and> body_two_all ! 3 = Assign [Name ''__all__''] OtherExpr
   \<and> assigns_all (Assign [Name ''__all__''] OtherExpr)
   \<and> \<not> literal_strings OtherExpr
   \<and> check_init_exports fs_two_all init_ex pkg_ex = Inr []
   \<and> main fs_two_all repo ''pkg'' (All []) = Inr \<lparr>report = [], exit_code = 0\<rparr>"
  by code_simp

subsection \<open>Exports without a binding\<close>

lemma check_exports_member:
  "check_exports fs init_path pkg imports names = Inr vs \<Longrightarrow> name \<in> set names \<Longrightarrow>
   check_export fs init_path pkg imports name = Inr v1 \<Longrightarrow> set v1 \<subseteq> set vs"
  by (induction names arbitrary: vs) (auto split: sum.splits)

lemma check_export_unbound:
  "imports name = None \<Longrightarrow>
   check_export fs init_path pkg imports name = Inr [unbound_export_violation init_path name]"
  by (simp add: check_export_def unbound_export_violation_def private_name_violation_def
        not_imported_violation_def)

text \<open>
  Claim C4, as amended. For every name of the export list that no relative import-from
  statement of the entry file binds, of whatever level (so a name bound by a wildcard
  import or by an assignment only), the round of the loop for that name records one
  violation at line 1 of the entry file, and every violation list that the check of the
  entry file returns holds it. A name bound by a multi-level relative import is tracked
  like one bound by a single-level import.
\<close>

theorem unbound_export_flagged:
  assumes "parse_py fs init_path = Inr tree"
    and "extract_all_list tree = Inr (Some exported)"
    and "name \<in> set exported"
    and "relative_bindings (body tree) name = []"
  shows "check_export fs init_path pkg (import_map_from_init tree) name =
           Inr [unbound_export_violation init_path name]
       \<and> (case check_init_exports fs init_path pkg of
            Inl e \<Rightarrow> True
          | Inr vs \<Rightarrow> unbound_export_violation init_path name \<in> set vs)"
proof -
  have none: "import_map_from_init tree name = None"
    using assms(4) by (simp add: import_map_from_init_bindings)
  then have step: "check_export fs init_path pkg (import_map_from_init tree) name =
      Inr [unbound_export_violation init_path name]"
    by (rule check_export_unbound)
  have "unbound_export_violation init_path name \<in> set vs"
    if "check_init_exports fs init_path pkg = Inr vs" for vs
  proof -
    from that assms(1,2) obtain ws where
      ws: "check_exports fs init_path pkg (import_map_from_init tree) exported = Inr ws"
      and vs: "vs = init_doc_violations init_path tree @ ws"
      by (auto simp: check_init_exports_def split: sum.splits)
    from check_exports_member [OF ws assms(3) step] vs show ?thesis by simp
  qed
  with step show ?thesis by (simp split: sum.splits)
qed

theorem unbound_export_flagged_witness:
  "parse_py fs_wildcard init_ex = Inr (Module body_wildcard)
   \<and> extract_all_list (Module body_wildcard) = Inr (Some [''run''])
   \<and> ''run'' \<in> set [''run'']
   \<and> relative_bindings (body (Module body_wildcard)) ''run'' = []
   \<and> check_export fs_wildcard init_ex pkg_ex (import_map_from_init (Module body_wildcard)) ''run'' =
           Inr [unbound_export_violation init_ex ''run'']
   \<and> check_init_exports fs_wildcard init_ex pkg_ex = Inr [not_imported_violation init_ex ''run'']"
proof -
  have h1: "parse_py fs_wildcard init_ex = Inr (Module body_wildcard)"
    by code_simp
  have h2: "extract_all_list (Module body_wildcard) = Inr (Some [''run''])"
    by code_simp
  have h3: "''run'' \<in> set [''run'']"
    by simp
  have h4: "relative_bindings (body (Module body_wildcard)) ''run'' = []"
    by code_simp
  have h5: "check_init_exports fs_wildcard init_ex pkg_ex = Inr [not_imported_violation init_ex ''run'']"
    by code_simp
  show ?thesis
    using unbound_export_flagged [OF h1 h2 h3 h4, of pkg_ex] h1 h2 h4 h5 by simp
qed

text \<open>
  Claim C4, as stated, fails for a multi-level relative import: \<^verbatim>\<open>from ..core import run\<close>
  binds the export, the module is looked up below the package, and no violation is
  recorded.
\<close>

theorem multi_level_import_is_resolved:
  "single_level_bindings body_multi ''run'' = []
   \<and> check_init_exports fs_multi init_ex pkg_ex = Inr []"
  by code_simp

subsection \<open>Renamed exports\<close>



subsection \<open>Runs and reports\<close>

lemma run_targets_single:
  "run_targets fs root pkg_name [t] = check_target fs root pkg_name t"
  by (simp split: sum.splits)

lemma run_targets_Inr:
  "run_targets fs root pkg_name ts = Inr vs \<Longrightarrow>
   list_all (\<lambda>t. \<not> isl (run_targets fs root pkg_name [t])) ts
   \<and> set vs = (\<Union>t\<in>set ts. violations_of_target fs root pkg_name t)"
proof (induction ts arbitrary: vs)
  case Nil
  then show ?case by simp
next
  case (Cons t ts)
  from Cons.prems obtain v1 v2 where
    v1: "check_target fs root pkg_name t = Inr v1"
    and v2: "run_targets fs root pkg_name ts = Inr v2"
    and vs: "vs = v1 @ v2"
    by (auto split: sum.splits)
  from Cons.IH [OF v2] v1 vs show ?case
    by (simp add: violations_of_target_def run_targets_single del: run_targets.simps)
qed

lemma run_targets_Inl_ex:
  "run_targets fs root pkg_name ts = Inl e \<Longrightarrow>
   list_ex (\<lambda>t. isl (run_targets fs root pkg_name [t])) ts"
proof (induction ts)
  case Nil
  then show ?case by simp
next
  case (Cons t ts)
  show ?case
  proof (cases "check_target fs root pkg_name t")
    case (Inl e')
    then show ?thesis by (simp add: run_targets_single del: run_targets.simps)
  next
    case (Inr v1)
    with Cons.prems have "run_targets fs root pkg_name ts = Inl e"
      by (auto split: sum.splits)
    from Cons.IH [OF this] show ?thesis by simp
  qed
qed

lemma main_changed_single:
  "suffix ''.py'' rel \<Longrightarrow>
   main fs root pkg_name (Changed [rel]) =
     (case run_targets fs root pkg_name [root @ path_parts rel] of
        Inl e \<Rightarrow> Inl e
      | Inr vs \<Rightarrow> Inr \<lparr>report = vs, exit_code = (if vs \<noteq> [] then 1 else 0)\<rparr>)"
  by (simp add: main_def targets_of_def)

text \<open>
  Claim C8. A full sweep returns a violation list exactly when the check of every one of
  its targets on its own returns one, and then the set of the violations of the report is
  the union of the violation sets of the targets checked one by one; it ends without a
  list exactly when the check of some target on its own does. The check of one target is
  the same in every scope: a run over one changed source file is that check on that file.
\<close>

theorem all_scope_is_union_of_single_checks:
  "(case main fs root pkg_name (All listing) of
      Inl e \<Rightarrow>
        list_ex (\<lambda>t. isl (run_targets fs root pkg_name [t]))
          (targets_of fs root pkg_name (All listing))
    | Inr out \<Rightarrow>
        list_all (\<lambda>t. \<not> isl (run_targets fs root pkg_name [t]))
          (targets_of fs root pkg_name (All listing))
        \<and> set (report out) =
            (\<Union>t\<in>set (targets_of fs root pkg_name (All listing)).
               violations_of_target fs root pkg_name t))
   \<and> (suffix ''.py'' rel \<longrightarrow>
        main fs root pkg_name (Changed [rel]) =
          (case run_targets fs root pkg_name [root @ path_parts rel] of
             Inl e \<Rightarrow> Inl e
           | Inr vs \<Rightarrow> Inr \<lparr>report = vs, exit_code = (if vs \<noteq> [] then 1 else 0)\<rparr>))"
proof -
  have a: "(case main fs root pkg_name (All listing) of
      Inl e \<Rightarrow>
        list_ex (\<lambda>t. isl (run_targets fs root pkg_name [t]))
          (targets_of fs root pkg_name (All listing))
    | Inr out \<Rightarrow>
        list_all (\<lambda>t. \<not> isl (run_targets fs root pkg_name [t]))
          (targets_of fs root pkg_name (All listing))
        \<and> set (report out) =
            (\<Union>t\<in>set (targets_of fs root pkg_name (All listing)).
               violations_of_target fs root pkg_name t))"
  proof (cases "run_targets fs root pkg_name (targets_of fs root pkg_name (All listing))")
    case (Inl e)
    from run_targets_Inl_ex [OF this] Inl show ?thesis
      by (simp add: main_def)
  next
    case (Inr vs)
    from run_targets_Inr [OF this] Inr show ?thesis
      by (simp add: main_def)
  qed
  show ?thesis
    using a main_changed_single [of rel fs root pkg_name] by blast
qed

theorem all_scope_is_union_of_single_checks_witness:
  "suffix ''.py'' ''src/pkg/api/a.py''
   \<and> targets_of fs_api repo ''pkg'' (All listing_api) =
       [init_ex, pkg_ex @ [''api'', ''a.py''], pkg_ex @ [''api'', ''b.py'']]
   \<and> main fs_api repo ''pkg'' (All listing_api) =
       Inr \<lparr>report = [missing_doc_violation (pkg_ex @ [''b.py'']) 3 ''B'',
                      missing_doc_violation (pkg_ex @ [''a.py'']) 3 ''A'',
                      Violation (pkg_ex @ [''api'', ''a.py'']) 3
                        (''Public symbol '' @ quoted ''f'' @ '' is missing a docstring.''),
                      Violation (pkg_ex @ [''api'', ''b.py'']) 3
                        (''Public symbol '' @ quoted ''g'' @ '' is missing a docstring.'')],
            exit_code = 1\<rparr>
   \<and> set [missing_doc_violation (pkg_ex @ [''b.py'']) 3 ''B'',
          missing_doc_violation (pkg_ex @ [''a.py'']) 3 ''A'',
          Violation (pkg_ex @ [''api'', ''a.py'']) 3
            (''Public symbol '' @ quoted ''f'' @ '' is missing a docstring.''),
          Violation (pkg_ex @ [''api'', ''b.py'']) 3
            (''Public symbol '' @ quoted ''g'' @ '' is missing a docstring.'')]
       = (\<Union>t\<in>set [init_ex, pkg_ex @ [''api'', ''a.py''], pkg_ex @ [''api'', ''b.py'']].
           violations_of_target fs_api repo ''pkg'' t)
   \<and> main fs_api repo ''pkg'' (Changed [''src/pkg/api/a.py'']) =
       (case run_targets fs_api repo ''pkg'' [repo @ path_parts ''src/pkg/api/a.py''] of
             Inl e \<Rightarrow> Inl e
           | Inr vs \<Rightarrow> Inr \<lparr>report = vs, exit_code = (if vs \<noteq> [] then 1 else 0)\<rparr>)"
proof -
  have h: "suffix ''.py'' ''src/pkg/api/a.py''"
    by code_simp
  have t: "targets_of fs_api repo ''pkg'' (All listing_api) =
       [init_ex, pkg_ex @ [''api'', ''a.py''], pkg_ex @ [''api'', ''b.py'']]"
    by code_simp
  have m: "main fs_api repo ''pkg'' (All listing_api) =
       Inr \<lparr>report = [missing_doc_violation (pkg_ex @ [''b.py'']) 3 ''B'',
                      missing_doc_violation (pkg_ex @ [''a.py'']) 3 ''A'',
                      Violation (pkg_ex @ [''api'', ''a.py'']) 3
                        (''Public symbol '' @ quoted ''f'' @ '' is missing a docstring.''),
                      Violation (pkg_ex @ [''api'', ''b.py'']) 3
                        (''Public symbol '' @ quoted ''g'' @ '' is missing a docstring.'')],
            exit_code = 1\<rparr>"
    by code_simp
  show ?thesis
    using all_scope_is_union_of_single_checks [of fs_api repo "''pkg''" listing_api "''src/pkg/api/a.py''"] h t m
    by simp
qed

lemma targets_of_All_set:
  "set listing1 = set listing2 \<Longrightarrow>
   targets_of fs root pkg_name (All listing1) = targets_of fs root pkg_name (All listing2)"
proof -
  assume "set listing1 = set listing2"
  then have "set (candidates fs root pkg_name listing1) = set (candidates fs root pkg_name listing2)"
    by (simp add: candidates_def)
  then have "sorted_list_of_set (set (candidates fs root pkg_name listing1))
           = sorted_list_of_set (set (candidates fs root pkg_name listing2))"
    by simp
  then show ?thesis
    by (simp add: targets_of_def sorted_list_of_set_sort_remdups)
qed

lemma run_targets_concat:
  "run_targets fs root pkg_name ts = Inr vs \<Longrightarrow>
   vs = concat (map (target_violations fs root pkg_name) ts)"
  by (induction ts arbitrary: vs) (auto simp: target_violations_def split: sum.splits)

text \<open>
  Claim C1, as amended. In a full sweep the report lists the violations target by
  target, in the order in which the targets are checked, and the targets are checked in
  the order of their paths, each once; so the outcome, and with it the order of the
  report, is the same for every order in which the file system enumerates the same
  files.
\<close>

theorem all_scope_report_independent_of_enumeration:
  assumes "set listing1 = set listing2"
  shows "main fs root pkg_name (All listing1) = main fs root pkg_name (All listing2)
       \<and> sorted (targets_of fs root pkg_name (All listing1))
       \<and> distinct (targets_of fs root pkg_name (All listing1))
       \<and> (case main fs root pkg_name (All listing1) of
            Inl e \<Rightarrow> True
          | Inr out \<Rightarrow>
              report out = concat (map (target_violations fs root pkg_name)
                                     (targets_of fs root pkg_name (All listing1))))"
proof -
  have eq: "main fs root pkg_name (All listing1) = main fs root pkg_name (All listing2)"
    using targets_of_All_set [OF assms, of fs root pkg_name] by (simp add: main_def)
  have sd: "sorted (targets_of fs root pkg_name (All listing1))
       \<and> distinct (targets_of fs root pkg_name (All listing1))"
    by (simp add: targets_of_def)
  have ord: "(case main fs root pkg_name (All listing1) of
            Inl e \<Rightarrow> True
          | Inr out \<Rightarrow>
              report out = concat (map (target_violations fs root pkg_name)
                                     (targets_of fs root pkg_name (All listing1))))"
  proof (cases "run_targets fs root pkg_name (targets_of fs root pkg_name (All listing1))")
    case (Inl e)
    then show ?thesis by (simp add: main_def)
  next
    case (Inr vs)
    from run_targets_concat [OF this] Inr show ?thesis by (simp add: main_def)
  qed
  from eq sd ord show ?thesis by blast
qed

theorem all_scope_report_independent_of_enumeration_witness:
  "set [pkg_ex @ [''api'', ''a.py''], pkg_ex @ [''api'', ''b.py'']] = set listing_api
   \<and> main fs_api repo ''pkg'' (All [pkg_ex @ [''api'', ''a.py''], pkg_ex @ [''api'', ''b.py'']])
     = main fs_api repo ''pkg'' (All listing_api)
   \<and> sorted (targets_of fs_api repo ''pkg'' (All [pkg_ex @ [''api'', ''a.py''], pkg_ex @ [''api'', ''b.py'']]))
   \<and> distinct (targets_of fs_api repo ''pkg'' (All [pkg_ex @ [''api'', ''a.py''], pkg_ex @ [''api'', ''b.py'']]))"
proof -
  have h: "set [pkg_ex @ [''api'', ''a.py''], pkg_ex @ [''api'', ''b.py'']] = set listing_api"
    by (auto simp: listing_api_def)
  show ?thesis
    using all_scope_report_independent_of_enumeration [OF h, of fs_api repo "''pkg''"] h by blast
qed

text \<open>
  Claim C1, as stated, fails: the report is not sorted by file and line. The entry file
  exports \<^verbatim>\<open>B\<close> before \<^verbatim>\<open>A\<close>, and the report names \<^verbatim>\<open>b.py\<close> before \<^verbatim>\<open>a.py\<close>.
\<close>

theorem report_not_sorted:
  "main fs_unsorted repo ''pkg'' (All []) =
     Inr \<lparr>report = [missing_doc_violation (pkg_ex @ [''b.py'']) 3 ''B'',
                    missing_doc_violation (pkg_ex @ [''a.py'']) 3 ''A''],
          exit_code = 1\<rparr>
   \<and> \<not> sorted (report_keys [missing_doc_violation (pkg_ex @ [''b.py'']) 3 ''B'',
                    missing_doc_violation (pkg_ex @ [''a.py'']) 3 ''A''])"
  by code_simp

end
